theory Spec2Isabelle
  imports Complex_Main "HOL-Library.AList"
begin

section \<open>JSON values and control messages\<close>

text \<open>
  The component exchanges JavaScript objects that are serialised with
  \<^verbatim>\<open>JSON.stringify\<close>. A JSON value is modelled as a datatype, an object as an
  association list in property order. Numbers are the finite doubles the code handles;
  the code only compares them and takes \<^verbatim>\<open>Math.max\<close>/\<^verbatim>\<open>Math.min\<close>, which are exact, so
  they are embedded in \<^typ>\<open>real\<close>. \<^verbatim>\<open>NaN\<close> does not occur: every configured number is
  read as \<^verbatim>\<open>parseFloat(..) || d\<close>, which replaces \<^verbatim>\<open>NaN\<close> by \<^verbatim>\<open>d\<close>, and
  the threshold inputs are slider values and literal presets.
\<close>

datatype json =
    JNull
  | JBool bool
  | JNum real
  | JStr string
  | JArr "json list"
  | JObj "(string \<times> json) list"

type_synonym message = "(string \<times> json) list"

text \<open>JavaScript truthiness of a property value; a missing property is \<^verbatim>\<open>undefined\<close>.\<close>

fun truthy :: "json \<Rightarrow> bool" where
  "truthy JNull = False"
| "truthy (JBool b) = b"
| "truthy (JNum x) = (x \<noteq> 0)"
| "truthy (JStr s) = (s \<noteq> [])"
| "truthy (JArr xs) = True"
| "truthy (JObj fs) = True"

definition prop_truthy :: "message \<Rightarrow> string \<Rightarrow> bool" where
  "prop_truthy m k = (case map_of m k of None \<Rightarrow> False | Some v \<Rightarrow> truthy v)"

text \<open>Property access on a JSON value: \<^verbatim>\<open>v.k\<close>, \<open>None\<close> when it is absent.\<close>

fun get_prop :: "string \<Rightarrow> json \<Rightarrow> json option" where
  "get_prop k (JObj fs) = map_of fs k"
| "get_prop k v = None"

section \<open>Configuration\<close>

text \<open>
  \<^verbatim>\<open>parseInt(env) || d\<close> and \<^verbatim>\<open>parseFloat(env) || d\<close>: the parsed value, \<open>None\<close> for
  \<^verbatim>\<open>NaN\<close> (variable unset or not a number), is replaced by the default when it is falsy,
  that is \<^verbatim>\<open>NaN\<close> or zero.
\<close>

definition js_or :: "'a::zero option \<Rightarrow> 'a \<Rightarrow> 'a" where
  "js_or parsed d = (case parsed of None \<Rightarrow> d | Some x \<Rightarrow> if x = 0 then d else x)"

record env =
  VITE_PUSH_TO_TALK_TIME_LIMIT :: "int option"
  VITE_VAD_THRESHOLD_DEFAULT :: "real option"
  VITE_VAD_THRESHOLD_MIN :: "real option"
  VITE_VAD_THRESHOLD_MAX :: "real option"
  VITE_VAD_THRESHOLD_STEP :: "real option"

record config =
  pushToTalkTimeLimit :: int
  vadThresholdDefault :: real
  vadThresholdMin :: real
  vadThresholdMax :: real
  vadThresholdStep :: real

definition load_config :: "env \<Rightarrow> config" where
  "load_config e =
     \<lparr> pushToTalkTimeLimit = js_or (VITE_PUSH_TO_TALK_TIME_LIMIT e) 5000,
       vadThresholdDefault = js_or (VITE_VAD_THRESHOLD_DEFAULT e) 0.5,
       vadThresholdMin = js_or (VITE_VAD_THRESHOLD_MIN e) 0.0,
       vadThresholdMax = js_or (VITE_VAD_THRESHOLD_MAX e) 1.0,
       vadThresholdStep = js_or (VITE_VAD_THRESHOLD_STEP e) 0.01 \<rparr>"

section \<open>Component state\<close>

text \<open>
  The state of \<^verbatim>\<open>App\<close>: its \<^verbatim>\<open>useState\<close> variables and \<^verbatim>\<open>useRef\<close> cells. The data
  channel is the host object the component holds, with its \<^verbatim>\<open>readyState\<close> and the
  strings handed to \<^verbatim>\<open>send\<close> so far (each element of \<open>sent\<close> is the object that
  \<^verbatim>\<open>JSON.stringify\<close> serialised, oldest first). The host's refusal of a \<^verbatim>\<open>send\<close>
  on a channel that is not open is the host's behaviour and is not modelled; the
  component itself tests only for the presence of the channel, and for \<^verbatim>\<open>open\<close> in
  \<^verbatim>\<open>updateVADSettings\<close>. The local stream is the list of
  its audio tracks. The timer cell holds the delay the pending \<^verbatim>\<open>setTimeout\<close> was
  armed with. \<open>console\<close> collects the \<^verbatim>\<open>console.warn\<close> and \<^verbatim>\<open>console.error\<close> calls,
  oldest first; the \<^verbatim>\<open>console.log\<close> tracing is not part of the model, and neither are
  the audio element and the selected model name.
\<close>

datatype ready_state = Connecting | Open | Closing | Closed

record channel =
  readyState :: ready_state
  sent :: "message list"

record track =
  enabled :: bool

datatype level = Warn | Error

type_synonym console_call = "level \<times> string"

record state =
  isSessionActive :: bool
  events :: "message list"
  dataChannel :: "channel option"
  isPushToTalkEnabled :: bool
  isRecording :: bool
  peerConnection :: "unit option"
  localStream :: "track list option"
  spaceKeyTimer :: "int option"
  isRecordingRef :: bool
  vadThreshold :: real
  console :: "console_call list"

definition initial :: "config \<Rightarrow> state" where
  "initial cfg =
     \<lparr> isSessionActive = False, events = [], dataChannel = None,
       isPushToTalkEnabled = False, isRecording = False, peerConnection = None,
       localStream = None, spaceKeyTimer = None, isRecordingRef = False,
       vadThreshold = vadThresholdDefault cfg, console = [] \<rparr>"

text \<open>
  What the host returns inside one call of \<^verbatim>\<open>sendClientEvent\<close>:
  \<^verbatim>\<open>crypto.randomUUID()\<close> and \<^verbatim>\<open>new Date().toLocaleTimeString()\<close>.
\<close>

record host =
  randomUUID :: string
  toLocaleTimeString :: string

text \<open>Observations used in the statements below.\<close>

definition wire :: "state \<Rightarrow> message list" where
  "wire s = (case dataChannel s of None \<Rightarrow> [] | Some dc \<Rightarrow> sent dc)"

definition micEnabled :: "state \<Rightarrow> bool option" where
  "micEnabled s =
     (case localStream s of
        None \<Rightarrow> None
      | Some ts \<Rightarrow> (case ts of [] \<Rightarrow> None | audioTrack # rest \<Rightarrow> Some (enabled audioTrack)))"

section \<open>Operations of App.jsx\<close>

definition sendClientEvent :: "host \<Rightarrow> message \<Rightarrow> state \<Rightarrow> state" where
  "sendClientEvent h message s =
     (case dataChannel s of
        Some dc \<Rightarrow>
          let timestamp = toLocaleTimeString h;
              messageWithId =
                AList.update ''event_id''
                  (case map_of message ''event_id'' of
                     None \<Rightarrow> JStr (randomUUID h)
                   | Some v \<Rightarrow> if truthy v then v else JStr (randomUUID h))
                  message;
              dc' = dc\<lparr>sent := sent dc @ [messageWithId]\<rparr>;
              logged =
                (if \<not> prop_truthy messageWithId ''timestamp''
                 then AList.update ''timestamp'' (JStr timestamp) messageWithId
                 else messageWithId)
          in s\<lparr>dataChannel := Some dc', events := logged # events s\<rparr>
      | None \<Rightarrow>
          s\<lparr>console := console s @
               [(Error, ''Failed to send message - no data channel available'')]\<rparr>)"

definition toggleMicrophone :: "bool \<Rightarrow> state \<Rightarrow> state" where
  "toggleMicrophone en s =
     (case localStream s of
        Some ts \<Rightarrow>
          (case ts of
             audioTrack # rest \<Rightarrow> s\<lparr>localStream := Some (audioTrack\<lparr>enabled := en\<rparr> # rest)\<rparr>
           | [] \<Rightarrow> s)
      | None \<Rightarrow> s)"

definition vadEvent :: "real \<Rightarrow> message" where
  "vadEvent thr =
     [ (''type'', JStr ''session.update''),
       (''session'', JObj
          [ (''input_audio_transcription'', JObj [(''model'', JStr ''whisper-1'')]),
            (''turn_detection'', JObj
               [ (''type'', JStr ''server_vad''),
                 (''threshold'', JNum thr),
                 (''prefix_padding_ms'', JNum 300),
                 (''silence_duration_ms'', JNum (if thr > 0.7 then 1000 else 500)) ]) ]) ]"

definition updateVADSettings :: "host \<Rightarrow> state \<Rightarrow> state" where
  "updateVADSettings h s =
     (case dataChannel s of
        Some dc \<Rightarrow>
          if readyState dc = Open \<and> \<not> isPushToTalkEnabled s
          then sendClientEvent h (vadEvent (vadThreshold s)) s
          else s
      | None \<Rightarrow> s)"

definition stopRecording :: "host \<Rightarrow> state \<Rightarrow> state" where
  "stopRecording h s =
     (if \<not> isRecordingRef s then s
      else
        let s1 = s\<lparr>spaceKeyTimer := None\<rparr>;
            s2 = s1\<lparr>isRecordingRef := False, isRecording := False\<rparr>;
            s3 = toggleMicrophone False s2
        in sendClientEvent h [(''type'', JStr ''response.create'')] s3)"

definition startRecording :: "config \<Rightarrow> state \<Rightarrow> state" where
  "startRecording cfg s =
     (if \<not> isSessionActive s \<or> dataChannel s = None \<or> isRecordingRef s then s
      else
        let s1 = s\<lparr>isRecordingRef := True, isRecording := True\<rparr>;
            s2 = toggleMicrophone True s1
        in s2\<lparr>spaceKeyTimer := Some (pushToTalkTimeLimit cfg)\<rparr>)"

text \<open>
  The keyboard effect installs its handlers only while push-to-talk is enabled and the
  session is active, and it installs each of them twice, on \<^verbatim>\<open>window\<close> and on
  \<^verbatim>\<open>document\<close>, both capturing: one key event runs the handler twice.
\<close>

definition handleKeyDown :: "config \<Rightarrow> string \<Rightarrow> bool \<Rightarrow> state \<Rightarrow> state" where
  "handleKeyDown cfg code repeat s =
     (if code = ''Space'' \<and> \<not> repeat \<and> \<not> isRecordingRef s then startRecording cfg s else s)"

definition handleKeyUp :: "host \<Rightarrow> string \<Rightarrow> state \<Rightarrow> state" where
  "handleKeyUp h code s =
     (if code = ''Space'' \<and> isRecordingRef s then stopRecording h s else s)"

definition keyboardInstalled :: "state \<Rightarrow> bool" where
  "keyboardInstalled s = (\<not> (\<not> isPushToTalkEnabled s \<or> \<not> isSessionActive s))"

definition keydown :: "config \<Rightarrow> string \<Rightarrow> bool \<Rightarrow> state \<Rightarrow> state" where
  "keydown cfg code repeat s =
     (if keyboardInstalled s
      then handleKeyDown cfg code repeat (handleKeyDown cfg code repeat s)
      else s)"

definition keyup :: "host \<Rightarrow> host \<Rightarrow> string \<Rightarrow> state \<Rightarrow> state" where
  "keyup h h' code s =
     (if keyboardInstalled s then handleKeyUp h' code (handleKeyUp h code s) else s)"

definition togglePushToTalk :: "state \<Rightarrow> state" where
  "togglePushToTalk s =
     (let newMode = \<not> isPushToTalkEnabled s;
          s1 = s\<lparr>isPushToTalkEnabled := newMode\<rparr>;
          s2 = s1\<lparr>isRecordingRef := False, isRecording := False\<rparr>;
          s3 = s2\<lparr>spaceKeyTimer := None\<rparr>
      in if newMode then toggleMicrophone False s3 else toggleMicrophone True s3)"

text \<open>
  The mode checkbox is rendered with \<^verbatim>\<open>disabled={isSessionActive}\<close> and is the only
  caller of \<^verbatim>\<open>togglePushToTalk\<close>: a disabled input fires no change event.
\<close>

definition checkbox_onChange :: "state \<Rightarrow> state option" where
  "checkbox_onChange s = (if isSessionActive s then None else Some (togglePushToTalk s))"

definition resetVadThreshold :: "config \<Rightarrow> state \<Rightarrow> state" where
  "resetVadThreshold cfg s = s\<lparr>vadThreshold := vadThresholdDefault cfg\<rparr>"

definition validateAndSetVadThreshold :: "config \<Rightarrow> real \<Rightarrow> state \<Rightarrow> state" where
  "validateAndSetVadThreshold cfg v s =
     (let clampedValue = max (vadThresholdMin cfg) (min (vadThresholdMax cfg) v);
          s1 = s\<lparr>vadThreshold := clampedValue\<rparr>
      in if v \<noteq> clampedValue
         then s1\<lparr>console := console s1 @ [(Warn, ''VAD threshold clamped'')]\<rparr>
         else s1)"

text \<open>
  \<^verbatim>\<open>startSession\<close>, with its awaits collapsed: \<^verbatim>\<open>getUserMedia({audio: true})\<close>
  resolves with a stream whose first track is \<open>audioTrack\<close>; the track is disabled when
  push-to-talk is on; a fresh data channel is created and stored.
\<close>

definition startSession :: "track \<Rightarrow> track list \<Rightarrow> state \<Rightarrow> state" where
  "startSession audioTrack rest s =
     s\<lparr> localStream :=
          Some ((if isPushToTalkEnabled s then audioTrack\<lparr>enabled := False\<rparr> else audioTrack)
                # rest),
        dataChannel := Some \<lparr>readyState = Connecting, sent = []\<rparr>,
        peerConnection := Some () \<rparr>"

definition stopSession :: "state \<Rightarrow> state" where
  "stopSession s =
     s\<lparr> spaceKeyTimer := None,
        isRecordingRef := False,
        isRecording := False,
        localStream := None,
        isSessionActive := False,
        dataChannel := None,
        peerConnection := None \<rparr>"

definition sendTextMessage :: "host \<Rightarrow> host \<Rightarrow> string \<Rightarrow> state \<Rightarrow> state" where
  "sendTextMessage h h' message s =
     (let event =
            [ (''type'', JStr ''conversation.item.create''),
              (''item'', JObj
                 [ (''type'', JStr ''message''),
                   (''role'', JStr ''user''),
                   (''content'', JArr
                      [ JObj [(''type'', JStr ''input_text''), (''text'', JStr message)] ]) ]) ]
      in sendClientEvent h' [(''type'', JStr ''response.create'')] (sendClientEvent h event s))"

text \<open>
  The data-channel listeners. \<open>onMessage\<close> receives the object \<^verbatim>\<open>JSON.parse\<close> made of the
  incoming text and the current time string; \<open>onOpen\<close> is the host's transition of the
  channel to \<^verbatim>\<open>open\<close> followed by the listener. The listener's delayed call of
  \<^verbatim>\<open>updateVADSettings\<close> and the effect that calls it after a threshold change are
  \<open>vadEffect\<close>.
\<close>

definition onMessage :: "string \<Rightarrow> message \<Rightarrow> state \<Rightarrow> state" where
  "onMessage now event s =
     (let event' = (if \<not> prop_truthy event ''timestamp''
                    then AList.update ''timestamp'' (JStr now) event else event)
      in s\<lparr>events := event' # events s\<rparr>)"

definition onOpen :: "state \<Rightarrow> state" where
  "onOpen s =
     (case dataChannel s of
        None \<Rightarrow> s
      | Some dc \<Rightarrow>
          s\<lparr> dataChannel := Some (dc\<lparr>readyState := Open\<rparr>),
             isSessionActive := True,
             events := [] \<rparr>)"

definition vadEffect :: "host \<Rightarrow> state \<Rightarrow> state" where
  "vadEffect h s = (if isSessionActive s then updateVADSettings h s else s)"

section \<open>The events the component reacts to\<close>

text \<open>
  One constructor per handler that \<^verbatim>\<open>App.jsx\<close> wires up itself. Each handler runs to
  completion against the current state (single-threaded callbacks). The slider, the preset
  buttons and the reset button are disabled while push-to-talk is on; the threshold effect
  follows a change of the threshold. The cleanup of the keyboard effect, which clears the
  timer cell, may run between any two events. A recording is started by a key-down and
  stopped by a key-up or by the expiry of the timer; \<^verbatim>\<open>SessionControls\<close> and
  \<^verbatim>\<open>ToolPanel\<close>, which receive callbacks of the component as props, appear here with
  the messages they send.

  The only timer kept in the timer cell is the one \<^verbatim>\<open>startRecording\<close> arms, and its
  callback calls \<^verbatim>\<open>stopRecording\<close>: \<open>TimerExpired\<close> runs that callback, and a timer
  that was cleared never fires.

  React runs the callbacks it schedules as events of their own, and the set of runs is an
  over-approximation of what the component can do. The threshold effect
  (\<open>ThresholdEffect\<close>) runs after a render that changed the threshold, the session flag
  or the callback, in particular once after the channel has opened; here it may follow
  any event. The delayed call of \<^verbatim>\<open>updateVADSettings\<close> that the open listener
  schedules (\<open>VadTimer\<close>) is the closure of the render that registered the listener:
  it sees the threshold and the mode captured then, which the event carries, and the
  channel and the log as they are now. The data-channel effect registers its listeners
  again whenever that callback changes and never removes them, so one incoming message
  may be logged by several listeners: each of them is one \<open>ChannelMessage\<close>.
\<close>

datatype event =
    StartSession track "track list"
  | ChannelOpen
  | VadTimer host real bool
  | ThresholdEffect host
  | ChannelMessage string message
  | KeyDown string bool
  | KeyUp host host string
  | TimerExpired host
  | CheckboxChange
  | StopSession
  | ThresholdInput host real
  | ThresholdReset host
  | ResendVad host
  | SendText host host string
  | SendEvent host message
  | KeyboardCleanup

fun handle :: "config \<Rightarrow> event \<Rightarrow> state \<Rightarrow> state" where
  "handle cfg (StartSession t ts) s = startSession t ts s"
| "handle cfg ChannelOpen s = onOpen s"
| "handle cfg (VadTimer h capturedThreshold capturedMode) s =
     (let s' = updateVADSettings h
                 (s\<lparr>vadThreshold := capturedThreshold, isPushToTalkEnabled := capturedMode\<rparr>)
      in s'\<lparr>vadThreshold := vadThreshold s, isPushToTalkEnabled := isPushToTalkEnabled s\<rparr>)"
| "handle cfg (ThresholdEffect h) s = vadEffect h s"
| "handle cfg (ChannelMessage now e) s = (if dataChannel s = None then s else onMessage now e s)"
| "handle cfg (KeyDown code repeat) s = keydown cfg code repeat s"
| "handle cfg (KeyUp h h' code) s = keyup h h' code s"
| "handle cfg (TimerExpired h) s = (if spaceKeyTimer s = None then s else stopRecording h s)"
| "handle cfg CheckboxChange s = (case checkbox_onChange s of None \<Rightarrow> s | Some s' \<Rightarrow> s')"
| "handle cfg StopSession s = stopSession s"
| "handle cfg (ThresholdInput h v) s =
     (if isPushToTalkEnabled s then s else vadEffect h (validateAndSetVadThreshold cfg v s))"
| "handle cfg (ThresholdReset h) s =
     (if isPushToTalkEnabled s then s else vadEffect h (resetVadThreshold cfg s))"
| "handle cfg (ResendVad h) s =
     (if isSessionActive s \<and> \<not> isPushToTalkEnabled s then updateVADSettings h s else s)"
| "handle cfg (SendText h h' message) s = sendTextMessage h h' message s"
| "handle cfg (SendEvent h m) s = sendClientEvent h m s"
| "handle cfg KeyboardCleanup s = s\<lparr>spaceKeyTimer := None\<rparr>"

inductive reachable :: "config \<Rightarrow> state \<Rightarrow> bool" for cfg :: config where
  reachable_initial: "reachable cfg (initial cfg)"
| reachable_handle: "reachable cfg s \<Longrightarrow> reachable cfg (handle cfg ev s)"

definition recording_invariant :: "state \<Rightarrow> bool" where
  "recording_invariant s = (isRecording s \<longrightarrow> isSessionActive s \<and> isPushToTalkEnabled s)"

text \<open>
  The stronger invariant of the reachable states: the ref cell and the state variable
  agree, and a recording also has a data channel.
\<close>

definition session_invariant :: "state \<Rightarrow> bool" where
  "session_invariant s =
     (isRecordingRef s = isRecording s
      \<and> (isRecording s \<longrightarrow> isSessionActive s \<and> isPushToTalkEnabled s \<and> dataChannel s \<noteq> None))"

section \<open>The performance helper (performance.js)\<close>

text \<open>
  \<^verbatim>\<open>performance.memory\<close> is a host object or absent. Heap sizes are divided by
  \<open>1024\<close> twice, which is exact on doubles. The monitor keeps the lists of measurements.
\<close>

record memory_info =
  usedJSHeapSize :: real
  totalJSHeapSize :: real
  jsHeapSizeLimit :: real

record memory =
  used :: real
  total_heap :: real
  limit :: real

record monitor =
  audioLatency :: "real list"
  memoryUsage :: "memory list"
  connectionTime :: "real list"
  vadResponseTime :: "real list"
  startTime :: "real option"

definition measureMemoryUsage ::
  "memory_info option \<Rightarrow> monitor \<Rightarrow> memory option \<times> monitor \<times> console_call list" where
  "measureMemoryUsage performance_memory this =
     (case performance_memory of
        None \<Rightarrow> (None, this, [(Warn, ''performance.memory not available'')])
      | Some pm \<Rightarrow>
          let mem = \<lparr> used = usedJSHeapSize pm / 1024 / 1024,
                      total_heap = totalJSHeapSize pm / 1024 / 1024,
                      limit = jsHeapSizeLimit pm / 1024 / 1024 \<rparr>
          in (Some mem, this\<lparr>memoryUsage := memoryUsage this @ [mem]\<rparr>, []))"

text \<open>
  \<^verbatim>\<open>getWebRTCStats\<close>: the peer connection is absent or a host object whose
  \<^verbatim>\<open>getStats()\<close> either throws (rejects) with an error or yields the reports. A numeric
  field of a report is \<open>None\<close> when it is missing (\<^verbatim>\<open>undefined\<close>). The product
  \<^verbatim>\<open>jitter * 1000\<close> is \<^verbatim>\<open>NaN\<close> when the field is missing; otherwise it is taken in
  the reals, without the rounding of the double product.
\<close>

record report =
  report_type :: string
  mediaType :: string
  packetsReceived :: "real option"
  packetsLost :: "real option"
  jitter :: "real option"
  audioLevel :: "real option"
  packetsSent :: "real option"
  bytesSent :: "real option"

datatype js_number = NaN | Number real

definition times_1000 :: "real option \<Rightarrow> js_number" where
  "times_1000 x = (case x of None \<Rightarrow> NaN | Some j \<Rightarrow> Number (j * 1000))"

datatype inbound_stats = Inbound "real option" "real option" js_number "real option"

datatype outbound_stats = Outbound "real option" "real option"

record audio_stats =
  inbound :: "inbound_stats option"
  outbound :: "outbound_stats option"

definition collect_report :: "audio_stats \<Rightarrow> report \<Rightarrow> audio_stats" where
  "collect_report audioStats r =
     (let a1 = (if report_type r = ''inbound-rtp'' \<and> mediaType r = ''audio''
                then audioStats\<lparr>inbound := Some (Inbound (packetsReceived r) (packetsLost r)
                                   (times_1000 (jitter r)) (audioLevel r))\<rparr>
                else audioStats)
      in if report_type r = ''outbound-rtp'' \<and> mediaType r = ''audio''
         then a1\<lparr>outbound := Some (Outbound (packetsSent r) (bytesSent r))\<rparr>
         else a1)"

definition getWebRTCStats ::
  "(string + report list) option \<Rightarrow> audio_stats option \<times> console_call list" where
  "getWebRTCStats peer =
     (case peer of
        None \<Rightarrow> (None, [])
      | Some getStats \<Rightarrow>
          (case getStats of
             Inr stats \<Rightarrow> (Some (foldl collect_report \<lparr>inbound = None, outbound = None\<rparr> stats), [])
           | Inl error \<Rightarrow> (None, [(Error, ''Failed to get WebRTC stats:'')])))"

section \<open>Observations and example states\<close>

text \<open>Nested property access, \<^verbatim>\<open>v.k1.k2...\<close>.\<close>

fun get_path :: "string list \<Rightarrow> json \<Rightarrow> json option" where
  "get_path [] v = Some v"
| "get_path (k # ks) v = (case get_prop k v of None \<Rightarrow> None | Some w \<Rightarrow> get_path ks w)"

text \<open>
  Example runs of the component with no environment variable set: a session in continuous
  mode, a session in push-to-talk mode, and the latter with the space key held down.
\<close>

definition example_config :: config where
  "example_config =
     load_config \<lparr> VITE_PUSH_TO_TALK_TIME_LIMIT = None, VITE_VAD_THRESHOLD_DEFAULT = None,
                   VITE_VAD_THRESHOLD_MIN = None, VITE_VAD_THRESHOLD_MAX = None,
                   VITE_VAD_THRESHOLD_STEP = None \<rparr>"

definition example_host :: host where
  "example_host = \<lparr> randomUUID = ''uuid-1'', toLocaleTimeString = ''10:00:00'' \<rparr>"

definition example_host' :: host where
  "example_host' = \<lparr> randomUUID = ''uuid-2'', toLocaleTimeString = ''10:00:01'' \<rparr>"

definition continuous_session :: state where
  "continuous_session =
     handle example_config ChannelOpen
       (handle example_config (StartSession \<lparr>enabled = True\<rparr> []) (initial example_config))"

definition ptt_session :: state where
  "ptt_session =
     handle example_config ChannelOpen
       (handle example_config (StartSession \<lparr>enabled = True\<rparr> [])
          (handle example_config CheckboxChange (initial example_config)))"

definition ptt_recording :: state where
  "ptt_recording = handle example_config (KeyDown ''Space'' False) ptt_session"

text \<open>A configuration whose default threshold lies above the configured maximum.\<close>

definition high_default_config :: config where
  "high_default_config =
     load_config \<lparr> VITE_PUSH_TO_TALK_TIME_LIMIT = None, VITE_VAD_THRESHOLD_DEFAULT = Some 1.5,
                   VITE_VAD_THRESHOLD_MIN = None, VITE_VAD_THRESHOLD_MAX = None,
                   VITE_VAD_THRESHOLD_STEP = None \<rparr>"

section \<open>Auxiliary facts\<close>

lemma example_config_eq:
  "example_config =
     \<lparr> pushToTalkTimeLimit = 5000, vadThresholdDefault = 0.5, vadThresholdMin = 0,
       vadThresholdMax = 1, vadThresholdStep = 0.01 \<rparr>"
  by (simp add: example_config_def load_config_def js_or_def)

lemma high_default_config_eq:
  "high_default_config =
     \<lparr> pushToTalkTimeLimit = 5000, vadThresholdDefault = 1.5, vadThresholdMin = 0,
       vadThresholdMax = 1, vadThresholdStep = 0.01 \<rparr>"
  by (simp add: high_default_config_def load_config_def js_or_def)

lemma continuous_session_eq:
  "continuous_session =
     \<lparr> isSessionActive = True, events = [],
       dataChannel = Some \<lparr>readyState = Open, sent = []\<rparr>,
       isPushToTalkEnabled = False, isRecording = False, peerConnection = Some (),
       localStream = Some [\<lparr>enabled = True\<rparr>], spaceKeyTimer = None,
       isRecordingRef = False, vadThreshold = 0.5, console = [] \<rparr>"
  by (simp add: continuous_session_def example_config_eq initial_def startSession_def onOpen_def)

lemma ptt_session_eq:
  "ptt_session =
     \<lparr> isSessionActive = True, events = [],
       dataChannel = Some \<lparr>readyState = Open, sent = []\<rparr>,
       isPushToTalkEnabled = True, isRecording = False, peerConnection = Some (),
       localStream = Some [\<lparr>enabled = False\<rparr>], spaceKeyTimer = None,
       isRecordingRef = False, vadThreshold = 0.5, console = [] \<rparr>"
  by (simp add: ptt_session_def example_config_eq initial_def startSession_def onOpen_def
      checkbox_onChange_def togglePushToTalk_def toggleMicrophone_def Let_def)

lemma ptt_recording_eq:
  "ptt_recording =
     \<lparr> isSessionActive = True, events = [],
       dataChannel = Some \<lparr>readyState = Open, sent = []\<rparr>,
       isPushToTalkEnabled = True, isRecording = True, peerConnection = Some (),
       localStream = Some [\<lparr>enabled = True\<rparr>], spaceKeyTimer = Some 5000,
       isRecordingRef = True, vadThreshold = 0.5, console = [] \<rparr>"
  by (simp add: ptt_recording_def ptt_session_eq example_config_eq keydown_def
      keyboardInstalled_def handleKeyDown_def startRecording_def toggleMicrophone_def Let_def)

lemma reachable_continuous_session: "reachable example_config continuous_session"
  unfolding continuous_session_def
  by (intro reachable_handle reachable_initial)

lemma reachable_ptt_session: "reachable example_config ptt_session"
  unfolding ptt_session_def
  by (intro reachable_handle reachable_initial)

lemma reachable_ptt_recording: "reachable example_config ptt_recording"
  unfolding ptt_recording_def
  by (intro reachable_handle reachable_ptt_session)

section \<open>Performance helper: missing instrumentation is not fatal\<close>

text \<open>
  C9. Unavailable instrumentation or a failing statistics call yields \<^verbatim>\<open>null\<close>:
  \<^verbatim>\<open>measureMemoryUsage\<close> returns \<^verbatim>\<open>null\<close>, leaves the monitor unchanged and emits one
  warning and nothing else when \<^verbatim>\<open>performance.memory\<close> is absent; \<^verbatim>\<open>getWebRTCStats\<close>
  returns \<^verbatim>\<open>null\<close> without a warning or an error when the peer connection is absent, and returns
  \<^verbatim>\<open>null\<close> after logging one error when \<^verbatim>\<open>getStats\<close> throws.
\<close>

theorem instrumentation_failure_yields_null:
  "measureMemoryUsage None this = (None, this, [(Warn, ''performance.memory not available'')])
   \<and> getWebRTCStats None = (None, [])
   \<and> getWebRTCStats (Some (Inl err)) = (None, [(Error, ''Failed to get WebRTC stats:'')])"
  by (simp add: measureMemoryUsage_def getWebRTCStats_def)

section \<open>Sending control messages\<close>

lemma sendClientEvent_Some:
  "dataChannel s = Some dc \<Longrightarrow>
   sendClientEvent h m s =
     s\<lparr> dataChannel :=
          Some (dc\<lparr>sent := sent dc @
            [AList.update ''event_id''
               (if prop_truthy m ''event_id'' then the (map_of m ''event_id'')
                else JStr (randomUUID h)) m]\<rparr>),
        events :=
          (let w = AList.update ''event_id''
                     (if prop_truthy m ''event_id'' then the (map_of m ''event_id'')
                      else JStr (randomUUID h)) m
           in if prop_truthy w ''timestamp'' then w
              else AList.update ''timestamp'' (JStr (toLocaleTimeString h)) w) # events s \<rparr>"
  by (auto simp: sendClientEvent_def prop_truthy_def Let_def split: option.splits)

lemma sendClientEvent_None:
  "dataChannel s = None \<Longrightarrow>
   sendClientEvent h m s =
     s\<lparr>console := console s @
        [(Error, ''Failed to send message - no data channel available'')]\<rparr>"
  by (simp add: sendClientEvent_def)

lemma sendClientEvent_frame:
  "isRecording (sendClientEvent h m s) = isRecording s"
  "isRecordingRef (sendClientEvent h m s) = isRecordingRef s"
  "isSessionActive (sendClientEvent h m s) = isSessionActive s"
  "isPushToTalkEnabled (sendClientEvent h m s) = isPushToTalkEnabled s"
  "spaceKeyTimer (sendClientEvent h m s) = spaceKeyTimer s"
  "localStream (sendClientEvent h m s) = localStream s"
  "vadThreshold (sendClientEvent h m s) = vadThreshold s"
  "(dataChannel (sendClientEvent h m s) = None) = (dataChannel s = None)"
  by (simp_all add: sendClientEvent_def Let_def split: option.splits)

lemma toggleMicrophone_frame:
  "isRecording (toggleMicrophone en s) = isRecording s"
  "isRecordingRef (toggleMicrophone en s) = isRecordingRef s"
  "isSessionActive (toggleMicrophone en s) = isSessionActive s"
  "isPushToTalkEnabled (toggleMicrophone en s) = isPushToTalkEnabled s"
  "spaceKeyTimer (toggleMicrophone en s) = spaceKeyTimer s"
  "dataChannel (toggleMicrophone en s) = dataChannel s"
  "events (toggleMicrophone en s) = events s"
  "vadThreshold (toggleMicrophone en s) = vadThreshold s"
  "console (toggleMicrophone en s) = console s"
  by (simp_all add: toggleMicrophone_def split: option.splits list.splits)

lemma updateVADSettings_frame:
  "isRecording (updateVADSettings h s) = isRecording s"
  "isRecordingRef (updateVADSettings h s) = isRecordingRef s"
  "isSessionActive (updateVADSettings h s) = isSessionActive s"
  "(dataChannel (updateVADSettings h s) = None) = (dataChannel s = None)"
  using sendClientEvent_frame [of h "vadEvent (vadThreshold s)" s]
  by (auto simp: updateVADSettings_def split: option.splits)

section \<open>The VAD settings dispatcher\<close>

text \<open>
  C4. \<^verbatim>\<open>updateVADSettings\<close> sends a configuration message exactly when the data channel
  exists, its \<^verbatim>\<open>readyState\<close> is \<^verbatim>\<open>open\<close> and push-to-talk is disabled. The message is a
  \<^verbatim>\<open>session.update\<close> that carries the current threshold and a
  \<^verbatim>\<open>silence_duration_ms\<close> of 1000 if the threshold exceeds 0.7 and of 500 otherwise. In
  every other state the call changes nothing: no message is sent, no warning or error is
  raised.
\<close>

theorem updateVADSettings_dispatch:
  "((\<exists>dc. dataChannel s = Some dc \<and> readyState dc = Open) \<and> \<not> isPushToTalkEnabled s \<longrightarrow>
      (\<exists>m. wire (updateVADSettings h s) = wire s @ [m]
         \<and> map_of m ''type'' = Some (JStr ''session.update'')
         \<and> get_path [''session'', ''turn_detection'', ''threshold''] (JObj m)
             = Some (JNum (vadThreshold s))
         \<and> get_path [''session'', ''turn_detection'', ''silence_duration_ms''] (JObj m)
             = Some (JNum (if vadThreshold s > 0.7 then 1000 else 500))))
   \<and> (\<not> ((\<exists>dc. dataChannel s = Some dc \<and> readyState dc = Open) \<and> \<not> isPushToTalkEnabled s) \<longrightarrow>
        updateVADSettings h s = s)"
proof (intro conjI impI)
  assume g: "(\<exists>dc. dataChannel s = Some dc \<and> readyState dc = Open) \<and> \<not> isPushToTalkEnabled s"
  then obtain dc where dc: "dataChannel s = Some dc" "readyState dc = Open" by blast
  let ?m = "AList.update ''event_id'' (JStr (randomUUID h)) (vadEvent (vadThreshold s))"
  have nt: "\<not> prop_truthy (vadEvent (vadThreshold s)) ''event_id''"
    by (simp add: prop_truthy_def vadEvent_def)
  have "wire (updateVADSettings h s) = wire s @ [?m]"
    using dc g nt by (simp add: updateVADSettings_def sendClientEvent_Some wire_def)
  moreover have "map_of ?m ''type'' = Some (JStr ''session.update'')"
    by (simp add: vadEvent_def)
  moreover have "get_path [''session'', ''turn_detection'', ''threshold''] (JObj ?m)
      = Some (JNum (vadThreshold s))"
    by (simp add: vadEvent_def)
  moreover have "get_path [''session'', ''turn_detection'', ''silence_duration_ms''] (JObj ?m)
      = Some (JNum (if vadThreshold s > 0.7 then 1000 else 500))"
    by (simp add: vadEvent_def)
  ultimately show "\<exists>m. wire (updateVADSettings h s) = wire s @ [m]
         \<and> map_of m ''type'' = Some (JStr ''session.update'')
         \<and> get_path [''session'', ''turn_detection'', ''threshold''] (JObj m)
             = Some (JNum (vadThreshold s))
         \<and> get_path [''session'', ''turn_detection'', ''silence_duration_ms''] (JObj m)
             = Some (JNum (if vadThreshold s > 0.7 then 1000 else 500))"
    by blast
next
  assume "\<not> ((\<exists>dc. dataChannel s = Some dc \<and> readyState dc = Open) \<and> \<not> isPushToTalkEnabled s)"
  then show "updateVADSettings h s = s"
    by (auto simp: updateVADSettings_def split: option.splits)
qed

theorem updateVADSettings_dispatch_witness:
  "((\<exists>dc. dataChannel continuous_session = Some dc \<and> readyState dc = Open)
      \<and> \<not> isPushToTalkEnabled continuous_session)
   \<and> (\<exists>m. wire (updateVADSettings example_host continuous_session) = wire continuous_session @ [m]
         \<and> get_path [''session'', ''turn_detection'', ''silence_duration_ms''] (JObj m)
             = Some (JNum 500))
   \<and> \<not> ((\<exists>dc. dataChannel ptt_session = Some dc \<and> readyState dc = Open)
          \<and> \<not> isPushToTalkEnabled ptt_session)
   \<and> updateVADSettings example_host ptt_session = ptt_session"
  using updateVADSettings_dispatch [of continuous_session example_host]
    updateVADSettings_dispatch [of ptt_session example_host]
  by (auto simp: continuous_session_eq ptt_session_eq)

section \<open>Writing the VAD threshold\<close>

text \<open>
  C5 as stated fails for the reset: with a configured default of 1.5 and the bounds
  \<open>[0, 1]\<close>, \<^verbatim>\<open>resetVadThreshold\<close> stores 1.5.
\<close>

theorem resetVadThreshold_not_clamped:
  "\<not> (vadThresholdMin high_default_config
        \<le> vadThreshold (resetVadThreshold high_default_config (initial high_default_config))
      \<and> vadThreshold (resetVadThreshold high_default_config (initial high_default_config))
        \<le> vadThresholdMax high_default_config)"
  by (simp add: high_default_config_eq resetVadThreshold_def)

text \<open>
  C5, amended. For bounds with \<open>min \<le> max\<close>, every write through
  \<^verbatim>\<open>validateAndSetVadThreshold\<close> stores a value within \<open>[min, max]\<close>: an input below
  \<open>min\<close> stores \<open>min\<close>, an input above \<open>max\<close> stores \<open>max\<close>, an input in range is
  stored as it is, and a warning is emitted exactly when the input was out of range.
  \<^verbatim>\<open>resetVadThreshold\<close> stores the configured default as it is, without clamping and
  without a warning.
\<close>

theorem validateAndSetVadThreshold_clamps:
  assumes "vadThresholdMin cfg \<le> vadThresholdMax cfg"
  shows "vadThresholdMin cfg \<le> vadThreshold (validateAndSetVadThreshold cfg v s)
    \<and> vadThreshold (validateAndSetVadThreshold cfg v s) \<le> vadThresholdMax cfg
    \<and> (v < vadThresholdMin cfg \<longrightarrow>
         vadThreshold (validateAndSetVadThreshold cfg v s) = vadThresholdMin cfg)
    \<and> (vadThresholdMax cfg < v \<longrightarrow>
         vadThreshold (validateAndSetVadThreshold cfg v s) = vadThresholdMax cfg)
    \<and> (vadThresholdMin cfg \<le> v \<and> v \<le> vadThresholdMax cfg \<longrightarrow>
         vadThreshold (validateAndSetVadThreshold cfg v s) = v)
    \<and> console (validateAndSetVadThreshold cfg v s) =
         console s @ (if v < vadThresholdMin cfg \<or> vadThresholdMax cfg < v
                      then [(Warn, ''VAD threshold clamped'')] else [])
    \<and> vadThreshold (resetVadThreshold cfg s) = vadThresholdDefault cfg
    \<and> console (resetVadThreshold cfg s) = console s"
  using assms
  by (auto simp: validateAndSetVadThreshold_def resetVadThreshold_def Let_def max_def min_def)

theorem validateAndSetVadThreshold_clamps_witness:
  "vadThresholdMin example_config \<le> vadThresholdMax example_config
   \<and> vadThresholdMax example_config < 1.2
   \<and> vadThreshold (validateAndSetVadThreshold example_config 1.2 continuous_session) = 1.0
   \<and> console (validateAndSetVadThreshold example_config 1.2 continuous_session)
       = [(Warn, ''VAD threshold clamped'')]
   \<and> vadThresholdMin example_config \<le> 0.3 \<and> 0.3 \<le> vadThresholdMax example_config
   \<and> vadThreshold (validateAndSetVadThreshold example_config 0.3 continuous_session) = 0.3
   \<and> -0.5 < vadThresholdMin example_config
   \<and> vadThreshold (validateAndSetVadThreshold example_config (-0.5) continuous_session) = 0"
  using validateAndSetVadThreshold_clamps [of example_config "1.2" continuous_session]
    validateAndSetVadThreshold_clamps [of example_config "0.3" continuous_session]
    validateAndSetVadThreshold_clamps [of example_config "-0.5" continuous_session]
  by (simp add: example_config_eq continuous_session_eq)

section \<open>The recording state machine\<close>

lemma micEnabled_toggleMicrophone:
  "micEnabled (toggleMicrophone en s) = map_option (\<lambda>_. en) (micEnabled s)"
  by (simp add: micEnabled_def toggleMicrophone_def split: option.splits list.splits)

text \<open>
  C2. \<^verbatim>\<open>startRecording\<close> starts a recording only when the session is active, a data
  channel is present and no recording is in progress; otherwise it changes nothing. On a
  start both recording flags are set, the microphone track (when the stream has one) is
  enabled, and the auto-stop timer is armed with the configured limit, which is 5000 ms
  when the environment does not give one. The timer is an auto-stop: when it expires, its
  callback is \<^verbatim>\<open>stopRecording\<close> on the state of that moment, so an expiry right after
  the start clears both recording flags and the timer cell and disables the microphone
  track again.
\<close>

theorem startRecording_guarded:
  "(isSessionActive s \<and> dataChannel s \<noteq> None \<and> \<not> isRecordingRef s \<longrightarrow>
      isRecordingRef (startRecording cfg s) \<and> isRecording (startRecording cfg s)
      \<and> micEnabled (startRecording cfg s) = map_option (\<lambda>_. True) (micEnabled s)
      \<and> spaceKeyTimer (startRecording cfg s) = Some (pushToTalkTimeLimit cfg)
      \<and> handle cfg (TimerExpired h) (startRecording cfg s)
          = stopRecording h (startRecording cfg s)
      \<and> \<not> isRecordingRef (handle cfg (TimerExpired h) (startRecording cfg s))
      \<and> \<not> isRecording (handle cfg (TimerExpired h) (startRecording cfg s))
      \<and> spaceKeyTimer (handle cfg (TimerExpired h) (startRecording cfg s)) = None
      \<and> micEnabled (handle cfg (TimerExpired h) (startRecording cfg s))
          = map_option (\<lambda>_. False) (micEnabled s))
   \<and> (\<not> (isSessionActive s \<and> dataChannel s \<noteq> None \<and> \<not> isRecordingRef s) \<longrightarrow>
        startRecording cfg s = s)
   \<and> pushToTalkTimeLimit (load_config (e\<lparr>VITE_PUSH_TO_TALK_TIME_LIMIT := None\<rparr>)) = 5000
   \<and> (VITE_PUSH_TO_TALK_TIME_LIMIT e = Some n \<and> n \<noteq> 0 \<longrightarrow>
        pushToTalkTimeLimit (load_config e) = n)"
proof -
  have expiry: "handle cfg (TimerExpired h) (startRecording cfg s)
        = stopRecording h (startRecording cfg s)
      \<and> \<not> isRecordingRef (handle cfg (TimerExpired h) (startRecording cfg s))
      \<and> \<not> isRecording (handle cfg (TimerExpired h) (startRecording cfg s))
      \<and> spaceKeyTimer (handle cfg (TimerExpired h) (startRecording cfg s)) = None
      \<and> micEnabled (handle cfg (TimerExpired h) (startRecording cfg s))
          = map_option (\<lambda>_. False) (micEnabled s)"
    if g: "isSessionActive s \<and> dataChannel s \<noteq> None \<and> \<not> isRecordingRef s"
  proof -
    let ?s' = "startRecording cfg s"
    let ?s3 = "toggleMicrophone False
                 (?s'\<lparr>spaceKeyTimer := None, isRecordingRef := False, isRecording := False\<rparr>)"
    have start: "?s' = (toggleMicrophone True (s\<lparr>isRecordingRef := True, isRecording := True\<rparr>))
                   \<lparr>spaceKeyTimer := Some (pushToTalkTimeLimit cfg)\<rparr>"
      using g by (auto simp: startRecording_def Let_def)
    have armed: "spaceKeyTimer ?s' \<noteq> None" and ref: "isRecordingRef ?s'"
      by (simp_all add: start toggleMicrophone_frame)
    have run: "handle cfg (TimerExpired h) ?s' = stopRecording h ?s'"
      using armed by auto
    have stop: "stopRecording h ?s' = sendClientEvent h [(''type'', JStr ''response.create'')] ?s3"
      using ref by (simp add: stopRecording_def Let_def)
    have flags: "\<not> isRecordingRef (stopRecording h ?s')" "\<not> isRecording (stopRecording h ?s')"
      "spaceKeyTimer (stopRecording h ?s') = None"
      by (simp_all add: stop sendClientEvent_frame toggleMicrophone_frame)
    have "micEnabled ?s' = map_option (\<lambda>_. True) (micEnabled s)"
      by (simp add: start micEnabled_def)
         (simp add: micEnabled_toggleMicrophone [unfolded micEnabled_def] micEnabled_def)
    moreover have "micEnabled (stopRecording h ?s') = map_option (\<lambda>_. False) (micEnabled ?s')"
    proof -
      have "micEnabled (stopRecording h ?s') = micEnabled ?s3"
        by (simp add: stop micEnabled_def sendClientEvent_frame)
      then show ?thesis
        by (simp add: micEnabled_toggleMicrophone) (simp add: micEnabled_def)
    qed
    ultimately have mic: "micEnabled (stopRecording h ?s') = map_option (\<lambda>_. False) (micEnabled s)"
      by (simp add: option.map_comp comp_def)
    from run flags mic show ?thesis by simp
  qed
  have "micEnabled (startRecording cfg s) = map_option (\<lambda>_. True) (micEnabled s)"
    if "isSessionActive s \<and> dataChannel s \<noteq> None \<and> \<not> isRecordingRef s"
  proof -
    have "micEnabled (startRecording cfg s)
        = micEnabled (toggleMicrophone True (s\<lparr>isRecordingRef := True, isRecording := True\<rparr>))"
      using that by (auto simp: startRecording_def Let_def micEnabled_def)
    then show ?thesis
      by (simp add: micEnabled_toggleMicrophone) (simp add: micEnabled_def)
  qed
  moreover have "isRecordingRef (startRecording cfg s) \<and> isRecording (startRecording cfg s)
      \<and> spaceKeyTimer (startRecording cfg s) = Some (pushToTalkTimeLimit cfg)"
    if "isSessionActive s \<and> dataChannel s \<noteq> None \<and> \<not> isRecordingRef s"
    using that
    by (auto simp: startRecording_def Let_def toggleMicrophone_def split: option.splits list.splits)
  moreover note expiry
  moreover have "startRecording cfg s = s"
    if "\<not> (isSessionActive s \<and> dataChannel s \<noteq> None \<and> \<not> isRecordingRef s)"
    using that by (auto simp: startRecording_def)
  moreover have "pushToTalkTimeLimit (load_config (e\<lparr>VITE_PUSH_TO_TALK_TIME_LIMIT := None\<rparr>)) = 5000"
    by (simp add: load_config_def js_or_def)
  moreover have "pushToTalkTimeLimit (load_config e) = n"
    if "VITE_PUSH_TO_TALK_TIME_LIMIT e = Some n \<and> n \<noteq> 0"
    using that by (simp add: load_config_def js_or_def)
  ultimately show ?thesis by blast
qed

theorem startRecording_guarded_witness:
  "(isSessionActive ptt_session \<and> dataChannel ptt_session \<noteq> None \<and> \<not> isRecordingRef ptt_session)
   \<and> isRecording (startRecording example_config ptt_session)
   \<and> micEnabled ptt_session = Some False
   \<and> micEnabled (startRecording example_config ptt_session) = Some True
   \<and> spaceKeyTimer (startRecording example_config ptt_session) = Some 5000
   \<and> \<not> isRecording (handle example_config (TimerExpired example_host)
                        (startRecording example_config ptt_session))
   \<and> spaceKeyTimer (handle example_config (TimerExpired example_host)
                        (startRecording example_config ptt_session)) = None
   \<and> micEnabled (handle example_config (TimerExpired example_host)
                        (startRecording example_config ptt_session)) = Some False
   \<and> \<not> (isSessionActive ptt_recording \<and> dataChannel ptt_recording \<noteq> None
          \<and> \<not> isRecordingRef ptt_recording)
   \<and> startRecording example_config ptt_recording = ptt_recording
   \<and> pushToTalkTimeLimit
        (load_config \<lparr> VITE_PUSH_TO_TALK_TIME_LIMIT = Some 3000, VITE_VAD_THRESHOLD_DEFAULT = None,
                       VITE_VAD_THRESHOLD_MIN = None, VITE_VAD_THRESHOLD_MAX = None,
                       VITE_VAD_THRESHOLD_STEP = None \<rparr>) = 3000"
  using startRecording_guarded [where s = ptt_session and cfg = example_config
      and h = example_host and n = 3000
      and e = "\<lparr> VITE_PUSH_TO_TALK_TIME_LIMIT = Some 3000, VITE_VAD_THRESHOLD_DEFAULT = None,
         VITE_VAD_THRESHOLD_MIN = None, VITE_VAD_THRESHOLD_MAX = None,
         VITE_VAD_THRESHOLD_STEP = None \<rparr>"]
    startRecording_guarded [where s = ptt_recording and cfg = example_config]
  by (simp add: ptt_session_eq ptt_recording_eq example_config_eq micEnabled_def
      startRecording_def stopRecording_def toggleMicrophone_def sendClientEvent_def Let_def)

section \<open>Invariant of the reachable states\<close>

lemma session_invariant_sendClientEvent:
  "session_invariant s \<Longrightarrow> session_invariant (sendClientEvent h m s)"
  by (simp add: session_invariant_def sendClientEvent_frame)

lemma session_invariant_updateVADSettings:
  "session_invariant s \<Longrightarrow> session_invariant (updateVADSettings h s)"
  by (simp add: updateVADSettings_def session_invariant_sendClientEvent split: option.splits)

lemma session_invariant_stopRecording:
  "session_invariant s \<Longrightarrow> session_invariant (stopRecording h s)"
  by (simp add: session_invariant_def stopRecording_def Let_def sendClientEvent_frame
      toggleMicrophone_frame)

lemma session_invariant_startRecording:
  "session_invariant s \<Longrightarrow> isPushToTalkEnabled s \<Longrightarrow> session_invariant (startRecording cfg s)"
  by (simp add: session_invariant_def startRecording_def Let_def toggleMicrophone_frame)

lemma startRecording_mode:
  "isPushToTalkEnabled (startRecording cfg s) = isPushToTalkEnabled s"
  by (simp add: startRecording_def Let_def toggleMicrophone_frame)

lemma session_invariant_keydown:
  "session_invariant s \<Longrightarrow> session_invariant (keydown cfg code repeat s)"
  by (simp add: keydown_def handleKeyDown_def keyboardInstalled_def
      session_invariant_startRecording startRecording_mode)

lemma session_invariant_keyup:
  "session_invariant s \<Longrightarrow> session_invariant (keyup h h' code s)"
  by (simp add: keyup_def handleKeyUp_def session_invariant_stopRecording)

lemma session_invariant_togglePushToTalk: "session_invariant (togglePushToTalk s)"
  by (simp add: session_invariant_def togglePushToTalk_def Let_def toggleMicrophone_frame)

lemma session_invariant_stopSession: "session_invariant (stopSession s)"
  by (simp add: session_invariant_def stopSession_def)

lemma session_invariant_handle:
  "session_invariant s \<Longrightarrow> session_invariant (handle cfg ev s)"
proof (cases ev)
  case (StartSession t ts)
  assume "session_invariant s"
  then show ?thesis using StartSession by (simp add: session_invariant_def startSession_def)
next
  case ChannelOpen
  assume "session_invariant s"
  then show ?thesis using ChannelOpen
    by (auto simp: session_invariant_def onOpen_def split: option.splits)
next
  case (VadTimer h capturedThreshold capturedMode)
  assume "session_invariant s"
  then show ?thesis using VadTimer
    by (simp add: session_invariant_def Let_def updateVADSettings_frame)
next
  case (ThresholdEffect h)
  assume "session_invariant s"
  then show ?thesis using ThresholdEffect
    by (simp add: vadEffect_def session_invariant_updateVADSettings)
next
  case (ChannelMessage now e)
  assume "session_invariant s"
  then show ?thesis using ChannelMessage
    by (auto simp: session_invariant_def onMessage_def Let_def)
next
  case (KeyDown code repeat)
  assume "session_invariant s"
  then show ?thesis using KeyDown by (simp add: session_invariant_keydown)
next
  case (KeyUp h h' code)
  assume "session_invariant s"
  then show ?thesis using KeyUp by (simp add: session_invariant_keyup)
next
  case (TimerExpired h)
  assume "session_invariant s"
  then show ?thesis using TimerExpired by (simp add: session_invariant_stopRecording)
next
  case CheckboxChange
  assume "session_invariant s"
  then show ?thesis using CheckboxChange
    by (simp add: checkbox_onChange_def session_invariant_togglePushToTalk)
next
  case StopSession
  then show ?thesis by (simp add: session_invariant_stopSession)
next
  case (ThresholdInput h v)
  assume "session_invariant s"
  then have "session_invariant (validateAndSetVadThreshold cfg v s)"
    by (simp add: session_invariant_def validateAndSetVadThreshold_def Let_def)
  then show ?thesis using ThresholdInput \<open>session_invariant s\<close>
    by (simp add: vadEffect_def session_invariant_updateVADSettings)
next
  case (ThresholdReset h)
  assume "session_invariant s"
  then have "session_invariant (resetVadThreshold cfg s)"
    by (simp add: session_invariant_def resetVadThreshold_def)
  then show ?thesis using ThresholdReset \<open>session_invariant s\<close>
    by (simp add: vadEffect_def session_invariant_updateVADSettings)
next
  case (ResendVad h)
  assume "session_invariant s"
  then show ?thesis using ResendVad by (simp add: session_invariant_updateVADSettings)
next
  case (SendText h h' message)
  assume "session_invariant s"
  then show ?thesis using SendText
    by (simp add: sendTextMessage_def Let_def session_invariant_sendClientEvent)
next
  case (SendEvent h m)
  assume "session_invariant s"
  then show ?thesis using SendEvent by (simp add: session_invariant_sendClientEvent)
next
  case KeyboardCleanup
  assume "session_invariant s"
  then show ?thesis using KeyboardCleanup by (simp add: session_invariant_def)
qed

lemma reachable_session_invariant: "reachable cfg s \<Longrightarrow> session_invariant s"
proof (induction rule: reachable.induct)
  case reachable_initial
  show ?case by (simp add: session_invariant_def initial_def)
next
  case (reachable_handle s ev)
  then show ?case by (simp add: session_invariant_handle)
qed

lemma wire_sendClientEvent:
  "dataChannel s \<noteq> None \<Longrightarrow>
   wire (sendClientEvent h m s) =
     wire s @ [AList.update ''event_id''
                 (if prop_truthy m ''event_id'' then the (map_of m ''event_id'')
                  else JStr (randomUUID h)) m]"
  by (auto simp: wire_def sendClientEvent_Some)

lemma events_sendClientEvent:
  "dataChannel s \<noteq> None \<Longrightarrow>
   events (sendClientEvent h m s) =
     (let w = AList.update ''event_id''
                (if prop_truthy m ''event_id'' then the (map_of m ''event_id'')
                 else JStr (randomUUID h)) m
      in if prop_truthy w ''timestamp'' then w
         else AList.update ''timestamp'' (JStr (toLocaleTimeString h)) w) # events s"
  by (auto simp: sendClientEvent_Some)

lemma map_of_stamp:
  "k \<noteq> ''timestamp'' \<Longrightarrow>
   map_of (if prop_truthy w ''timestamp'' then w else AList.update ''timestamp'' v w) k
     = map_of w k"
  by (simp add: update_conv')

lemma stamp_present:
  "map_of (if prop_truthy w ''timestamp'' then w else AList.update ''timestamp'' v w)
     ''timestamp'' \<noteq> None"
  by (auto simp: update_conv' prop_truthy_def split: option.splits)

section \<open>The recording invariant\<close>

text \<open>
  C1 as stated fails for \<^verbatim>\<open>startRecording\<close>: its guard does not look at the mode. In a
  running session in continuous mode the invariant holds, and a call of
  \<^verbatim>\<open>startRecording\<close> sets \<^verbatim>\<open>isRecording\<close> although push-to-talk is disabled.
\<close>

theorem startRecording_ignores_mode:
  "reachable example_config continuous_session
   \<and> recording_invariant continuous_session
   \<and> \<not> recording_invariant (startRecording example_config continuous_session)"
  using reachable_continuous_session
  by (simp add: continuous_session_eq recording_invariant_def startRecording_def
      toggleMicrophone_def Let_def)

text \<open>
  C1, amended. In every state reachable through the handlers of the component,
  \<^verbatim>\<open>isRecording\<close> is true only while the session is active and push-to-talk is enabled.
  \<^verbatim>\<open>stopRecording\<close>, \<^verbatim>\<open>togglePushToTalk\<close> and \<^verbatim>\<open>stopSession\<close> preserve this
  invariant from any state. \<^verbatim>\<open>startRecording\<close> preserves it when it is called while
  push-to-talk is enabled, which the keyboard effect ensures: its key-down handler, the
  caller of \<^verbatim>\<open>startRecording\<close>, is installed only in push-to-talk mode with an active
  session, so a key-down preserves the invariant from any state.
\<close>

theorem recording_invariant_preserved:
  "(reachable cfg s \<longrightarrow> recording_invariant s)
   \<and> (recording_invariant s \<longrightarrow> recording_invariant (stopRecording h s))
   \<and> recording_invariant (togglePushToTalk s)
   \<and> recording_invariant (stopSession s)
   \<and> (recording_invariant s \<and> isPushToTalkEnabled s \<longrightarrow>
        recording_invariant (startRecording cfg s))
   \<and> (recording_invariant s \<longrightarrow> recording_invariant (keydown cfg code repeat s))"
proof -
  have "recording_invariant s" if "reachable cfg s"
    using reachable_session_invariant [OF that]
    by (simp add: session_invariant_def recording_invariant_def)
  moreover have "recording_invariant (stopRecording h s)" if "recording_invariant s"
    using that
    by (simp add: recording_invariant_def stopRecording_def Let_def sendClientEvent_frame
        toggleMicrophone_frame)
  moreover have "recording_invariant (togglePushToTalk s)"
    by (simp add: recording_invariant_def togglePushToTalk_def Let_def toggleMicrophone_frame)
  moreover have "recording_invariant (stopSession s)"
    by (simp add: recording_invariant_def stopSession_def)
  moreover have start: "recording_invariant (startRecording cfg t)"
    if "recording_invariant t \<and> isPushToTalkEnabled t" for t
    using that
    by (simp add: recording_invariant_def startRecording_def Let_def toggleMicrophone_frame)
  moreover have "recording_invariant (keydown cfg code repeat s)" if "recording_invariant s"
    using that start
    by (simp add: keydown_def handleKeyDown_def keyboardInstalled_def startRecording_mode)
  ultimately show ?thesis by blast
qed

theorem recording_invariant_preserved_witness:
  "reachable example_config ptt_recording \<and> isRecording ptt_recording
   \<and> recording_invariant ptt_recording
   \<and> recording_invariant (stopRecording example_host ptt_recording)
   \<and> recording_invariant ptt_session \<and> isPushToTalkEnabled ptt_session
   \<and> isRecording (startRecording example_config ptt_session)
   \<and> recording_invariant (startRecording example_config ptt_session)
   \<and> recording_invariant (keydown example_config ''Space'' False ptt_session)"
  using recording_invariant_preserved [of example_config ptt_recording example_host]
    recording_invariant_preserved [of example_config ptt_session example_host "''Space''" False]
    reachable_ptt_recording reachable_ptt_session
  by (simp add: ptt_recording_eq ptt_session_eq startRecording_def toggleMicrophone_def Let_def)

section \<open>Stopping a recording\<close>

text \<open>
  C3. In every reachable state, \<^verbatim>\<open>stopRecording\<close> called while recording cancels the
  auto-stop timer, clears both recording flags, disables the microphone track (when the
  stream has one) and sends exactly one message, a \<^verbatim>\<open>response.create\<close>; releasing the
  space key, which runs the key-up handler on \<^verbatim>\<open>window\<close> and on \<^verbatim>\<open>document\<close>, has
  the same effect and so sends the message once. Called while not recording,
  \<^verbatim>\<open>stopRecording\<close> returns the state as it is: nothing is sent, logged or changed.
\<close>

theorem stopRecording_effects:
  assumes "reachable cfg s"
  shows "(isRecording s \<longrightarrow>
            spaceKeyTimer (stopRecording h s) = None
          \<and> \<not> isRecording (stopRecording h s)
          \<and> \<not> isRecordingRef (stopRecording h s)
          \<and> micEnabled (stopRecording h s) = map_option (\<lambda>_. False) (micEnabled s)
          \<and> wire (stopRecording h s) =
              wire s @ [[(''type'', JStr ''response.create''),
                         (''event_id'', JStr (randomUUID h))]]
          \<and> keyup h h' ''Space'' s = stopRecording h s)
       \<and> (\<not> isRecording s \<longrightarrow> stopRecording h s = s)"
proof -
  note inv = reachable_session_invariant [OF assms, unfolded session_invariant_def]
  let ?s3 = "toggleMicrophone False
               (s\<lparr>spaceKeyTimer := None, isRecordingRef := False, isRecording := False\<rparr>)"
  have unchanged: "stopRecording h s = s" if "\<not> isRecording s"
    using that inv by (simp add: stopRecording_def)
  have effects: "spaceKeyTimer (stopRecording h s) = None
      \<and> \<not> isRecording (stopRecording h s)
      \<and> \<not> isRecordingRef (stopRecording h s)
      \<and> micEnabled (stopRecording h s) = map_option (\<lambda>_. False) (micEnabled s)
      \<and> wire (stopRecording h s) =
          wire s @ [[(''type'', JStr ''response.create''), (''event_id'', JStr (randomUUID h))]]
      \<and> keyup h h' ''Space'' s = stopRecording h s"
    if rec: "isRecording s"
  proof -
    from rec inv have ref: "isRecordingRef s" and ch: "dataChannel s \<noteq> None"
      and kb: "keyboardInstalled s"
      by (simp_all add: keyboardInstalled_def)
    have stop: "stopRecording h s = sendClientEvent h [(''type'', JStr ''response.create'')] ?s3"
      using ref by (simp add: stopRecording_def Let_def)
    have ch3: "dataChannel ?s3 \<noteq> None"
      using ch by (simp add: toggleMicrophone_frame)
    have timer: "spaceKeyTimer (stopRecording h s) = None"
      by (simp add: stop sendClientEvent_frame toggleMicrophone_frame)
    have nrec: "\<not> isRecording (stopRecording h s)"
      by (simp add: stop sendClientEvent_frame toggleMicrophone_frame)
    have nref: "\<not> isRecordingRef (stopRecording h s)"
      by (simp add: stop sendClientEvent_frame toggleMicrophone_frame)
    have "micEnabled (stopRecording h s) = micEnabled ?s3"
      by (simp add: stop micEnabled_def sendClientEvent_frame)
    then have mic: "micEnabled (stopRecording h s) = map_option (\<lambda>_. False) (micEnabled s)"
      by (simp add: micEnabled_toggleMicrophone) (simp add: micEnabled_def)
    have "wire ?s3 = wire s"
      by (simp add: wire_def toggleMicrophone_frame)
    then have sent: "wire (stopRecording h s) =
        wire s @ [[(''type'', JStr ''response.create''), (''event_id'', JStr (randomUUID h))]]"
      using wire_sendClientEvent [OF ch3, of h "[(''type'', JStr ''response.create'')]"]
      by (simp add: stop prop_truthy_def)
    have "keyup h h' ''Space'' s = stopRecording h s"
      using kb ref nref by (simp add: keyup_def handleKeyUp_def)
    with timer nrec nref mic sent show ?thesis by blast
  qed
  from unchanged effects show ?thesis by blast
qed

theorem stopRecording_effects_witness:
  "reachable example_config ptt_recording \<and> isRecording ptt_recording
   \<and> spaceKeyTimer ptt_recording = Some 5000 \<and> micEnabled ptt_recording = Some True
   \<and> spaceKeyTimer (stopRecording example_host ptt_recording) = None
   \<and> micEnabled (stopRecording example_host ptt_recording) = Some False
   \<and> wire (stopRecording example_host ptt_recording) =
       [[(''type'', JStr ''response.create''), (''event_id'', JStr ''uuid-1'')]]
   \<and> reachable example_config ptt_session \<and> \<not> isRecording ptt_session
   \<and> stopRecording example_host ptt_session = ptt_session"
  using stopRecording_effects [OF reachable_ptt_recording, of example_host example_host']
    stopRecording_effects [OF reachable_ptt_session, of example_host example_host']
    reachable_ptt_recording reachable_ptt_session
  by (simp add: ptt_recording_eq ptt_session_eq micEnabled_def wire_def example_host_def)

section \<open>Switching the mode\<close>

text \<open>
  C6. In every state \<^verbatim>\<open>togglePushToTalk\<close> flips the mode, clears both recording flags,
  cancels the auto-stop timer and sets the enabled flag of the microphone track (when the
  stream has one) to the complement of the new mode. The checkbox that calls it is
  disabled while the session is active, so the toggle runs only while the session is
  inactive.
\<close>

theorem togglePushToTalk_effects:
  "isPushToTalkEnabled (togglePushToTalk s) = (\<not> isPushToTalkEnabled s)
   \<and> \<not> isRecording (togglePushToTalk s)
   \<and> \<not> isRecordingRef (togglePushToTalk s)
   \<and> spaceKeyTimer (togglePushToTalk s) = None
   \<and> micEnabled (togglePushToTalk s)
       = map_option (\<lambda>_. \<not> isPushToTalkEnabled (togglePushToTalk s)) (micEnabled s)
   \<and> (isSessionActive s \<longrightarrow> checkbox_onChange s = None)
   \<and> (\<not> isSessionActive s \<longrightarrow> checkbox_onChange s = Some (togglePushToTalk s))"
proof -
  let ?s3 = "s\<lparr>isPushToTalkEnabled := \<not> isPushToTalkEnabled s, isRecordingRef := False,
                isRecording := False, spaceKeyTimer := None\<rparr>"
  have t: "togglePushToTalk s = toggleMicrophone (isPushToTalkEnabled s) ?s3"
    by (simp add: togglePushToTalk_def Let_def)
  have "micEnabled ?s3 = micEnabled s"
    by (simp add: micEnabled_def)
  then have "micEnabled (togglePushToTalk s)
      = map_option (\<lambda>_. \<not> isPushToTalkEnabled (togglePushToTalk s)) (micEnabled s)"
    by (simp add: t micEnabled_toggleMicrophone toggleMicrophone_frame)
  then show ?thesis
    by (simp add: checkbox_onChange_def) (simp add: t toggleMicrophone_frame)
qed

theorem togglePushToTalk_effects_witness:
  "micEnabled continuous_session = Some True
   \<and> isSessionActive continuous_session
   \<and> checkbox_onChange continuous_session = None
   \<and> isPushToTalkEnabled (togglePushToTalk continuous_session)
   \<and> micEnabled (togglePushToTalk continuous_session) = Some False
   \<and> \<not> isSessionActive (initial example_config)
   \<and> checkbox_onChange (initial example_config) = Some (togglePushToTalk (initial example_config))
   \<and> isRecording ptt_recording
   \<and> \<not> isRecording (togglePushToTalk ptt_recording)
   \<and> spaceKeyTimer (togglePushToTalk ptt_recording) = None
   \<and> micEnabled (togglePushToTalk ptt_recording) = Some True"
  using togglePushToTalk_effects [of continuous_session]
    togglePushToTalk_effects [of "initial example_config"]
    togglePushToTalk_effects [of ptt_recording]
  by (simp add: continuous_session_eq ptt_recording_eq initial_def micEnabled_def)

section \<open>Text messages\<close>

text \<open>
  C10. With a data channel present, \<^verbatim>\<open>sendTextMessage\<close> sends exactly two messages for
  every input string: first a \<^verbatim>\<open>conversation.item.create\<close> whose item is a user message
  with the string as \<^verbatim>\<open>input_text\<close>, then a \<^verbatim>\<open>response.create\<close>.
\<close>

theorem sendTextMessage_two_messages:
  assumes "dataChannel s \<noteq> None"
  shows "wire (sendTextMessage h h' text s) =
     wire s @
       [ [ (''type'', JStr ''conversation.item.create''),
           (''item'', JObj
              [ (''type'', JStr ''message''),
                (''role'', JStr ''user''),
                (''content'', JArr
                   [ JObj [(''type'', JStr ''input_text''), (''text'', JStr text)] ]) ]),
           (''event_id'', JStr (randomUUID h)) ],
         [ (''type'', JStr ''response.create''), (''event_id'', JStr (randomUUID h')) ] ]"
proof -
  let ?event = "[ (''type'', JStr ''conversation.item.create''),
           (''item'', JObj
              [ (''type'', JStr ''message''),
                (''role'', JStr ''user''),
                (''content'', JArr
                   [ JObj [(''type'', JStr ''input_text''), (''text'', JStr text)] ]) ]) ]"
  have ch': "dataChannel (sendClientEvent h ?event s) \<noteq> None"
    using assms by (simp add: sendClientEvent_frame)
  have "wire (sendTextMessage h h' text s)
      = wire (sendClientEvent h ?event s)
          @ [[(''type'', JStr ''response.create''), (''event_id'', JStr (randomUUID h'))]]"
    using wire_sendClientEvent [OF ch', of h' "[(''type'', JStr ''response.create'')]"]
    by (simp add: sendTextMessage_def Let_def prop_truthy_def)
  then show ?thesis
    using wire_sendClientEvent [OF assms, of h ?event]
    by (simp add: prop_truthy_def)
qed

theorem sendTextMessage_two_messages_witness:
  "dataChannel continuous_session \<noteq> None
   \<and> wire (sendTextMessage example_host example_host' ''hello'' continuous_session) =
       [ [ (''type'', JStr ''conversation.item.create''),
           (''item'', JObj
              [ (''type'', JStr ''message''),
                (''role'', JStr ''user''),
                (''content'', JArr
                   [ JObj [(''type'', JStr ''input_text''), (''text'', JStr ''hello'')] ]) ]),
           (''event_id'', JStr ''uuid-1'') ],
         [ (''type'', JStr ''response.create''), (''event_id'', JStr ''uuid-2'') ] ]"
  using sendTextMessage_two_messages [of continuous_session example_host example_host' "''hello''"]
  by (simp add: continuous_session_eq wire_def example_host_def example_host'_def)

section \<open>The event log\<close>

text \<open>
  C7. Every message that is sent is prepended to the event log (its record is the sent
  object, with a timestamp added), and so is every message that is received; nothing is
  ever dropped from the log, so it is ordered most recent first and unbounded. Without a
  data channel nothing is sent and nothing is logged. The log is emptied when the data
  channel opens, which is when the session becomes active.
\<close>

theorem event_log_prepended:
  "(dataChannel s \<noteq> None \<longrightarrow>
      (\<exists>w r. wire (sendClientEvent h m s) = wire s @ [w]
           \<and> events (sendClientEvent h m s) = r # events s
           \<and> (\<forall>k. k \<noteq> ''timestamp'' \<longrightarrow> map_of r k = map_of w k)))
   \<and> (dataChannel s = None \<longrightarrow>
        wire (sendClientEvent h m s) = wire s \<and> events (sendClientEvent h m s) = events s)
   \<and> (\<exists>r. events (onMessage now e s) = r # events s
         \<and> (\<forall>k. k \<noteq> ''timestamp'' \<longrightarrow> map_of r k = map_of e k))
   \<and> (dataChannel s \<noteq> None \<longrightarrow> isSessionActive (onOpen s) \<and> events (onOpen s) = [])"
proof (intro conjI impI)
  assume ch: "dataChannel s \<noteq> None"
  show "\<exists>w r. wire (sendClientEvent h m s) = wire s @ [w]
           \<and> events (sendClientEvent h m s) = r # events s
           \<and> (\<forall>k. k \<noteq> ''timestamp'' \<longrightarrow> map_of r k = map_of w k)"
    using wire_sendClientEvent [OF ch, of h m] events_sendClientEvent [OF ch, of h m]
    by (simp add: Let_def map_of_stamp)
next
  assume "dataChannel s = None"
  then show "wire (sendClientEvent h m s) = wire s"
    by (simp add: sendClientEvent_None wire_def)
next
  assume "dataChannel s = None"
  then show "events (sendClientEvent h m s) = events s"
    by (simp add: sendClientEvent_None)
next
  show "\<exists>r. events (onMessage now e s) = r # events s
         \<and> (\<forall>k. k \<noteq> ''timestamp'' \<longrightarrow> map_of r k = map_of e k)"
    by (simp add: onMessage_def Let_def update_conv')
next
  assume "dataChannel s \<noteq> None"
  then show "isSessionActive (onOpen s)"
    by (auto simp: onOpen_def)
next
  assume "dataChannel s \<noteq> None"
  then show "events (onOpen s) = []"
    by (auto simp: onOpen_def)
qed

theorem event_log_prepended_witness:
  "dataChannel continuous_session \<noteq> None
   \<and> events (sendTextMessage example_host example_host' ''hello'' continuous_session) =
       [ [ (''type'', JStr ''response.create''), (''event_id'', JStr ''uuid-2''),
           (''timestamp'', JStr ''10:00:01'') ],
         [ (''type'', JStr ''conversation.item.create''),
           (''item'', JObj
              [ (''type'', JStr ''message''),
                (''role'', JStr ''user''),
                (''content'', JArr
                   [ JObj [(''type'', JStr ''input_text''), (''text'', JStr ''hello'')] ]) ]),
           (''event_id'', JStr ''uuid-1''), (''timestamp'', JStr ''10:00:00'') ] ]
   \<and> dataChannel (initial example_config) = None
   \<and> events (sendClientEvent example_host [(''type'', JStr ''response.create'')]
                (initial example_config)) = []
   \<and> events (onOpen (sendTextMessage example_host example_host' ''hello'' continuous_session))
       = []"
  using event_log_prepended [of continuous_session example_host]
    event_log_prepended [of "initial example_config" example_host
      "[(''type'', JStr ''response.create'')]"]
    event_log_prepended
      [of "sendTextMessage example_host example_host' ''hello'' continuous_session"]
  by (simp add: continuous_session_eq initial_def sendTextMessage_def sendClientEvent_def
      Let_def prop_truthy_def example_host_def example_host'_def)

section \<open>The fields of a message on the wire\<close>

text \<open>
  C8 as stated fails for the timestamp: the \<^verbatim>\<open>response.create\<close> that is sent carries a
  type and an event id and no timestamp.
\<close>

theorem wire_message_has_no_timestamp:
  "wire (sendClientEvent example_host [(''type'', JStr ''response.create'')] continuous_session)
     = [[(''type'', JStr ''response.create''), (''event_id'', JStr ''uuid-1'')]]
   \<and> map_of (last (wire (sendClientEvent example_host [(''type'', JStr ''response.create'')]
                          continuous_session))) ''timestamp'' = None"
  by (simp add: continuous_session_eq sendClientEvent_def wire_def Let_def example_host_def)

text \<open>
  C8, amended. Every message sent over the data channel carries an \<^verbatim>\<open>event_id\<close>, the
  caller's when that is truthy and a fresh UUID otherwise, and apart from it exactly the
  fields the caller gave (type, session, item). The timestamp is not put on the wire: the
  sent message has one only if the caller supplied it. It is added to the record in the
  event log, which otherwise equals the sent message.
\<close>

theorem wire_message_fields:
  assumes "dataChannel s \<noteq> None"
  shows "\<exists>w r. wire (sendClientEvent h m s) = wire s @ [w]
     \<and> events (sendClientEvent h m s) = r # events s
     \<and> (prop_truthy m ''event_id'' \<longrightarrow> map_of w ''event_id'' = map_of m ''event_id'')
     \<and> (\<not> prop_truthy m ''event_id'' \<longrightarrow> map_of w ''event_id'' = Some (JStr (randomUUID h)))
     \<and> (\<forall>k. k \<noteq> ''event_id'' \<longrightarrow> map_of w k = map_of m k)
     \<and> map_of r ''timestamp'' \<noteq> None
     \<and> (\<forall>k. k \<noteq> ''timestamp'' \<longrightarrow> map_of r k = map_of w k)"
proof -
  let ?w = "AList.update ''event_id''
              (if prop_truthy m ''event_id'' then the (map_of m ''event_id'')
               else JStr (randomUUID h)) m"
  let ?r = "if prop_truthy ?w ''timestamp'' then ?w
            else AList.update ''timestamp'' (JStr (toLocaleTimeString h)) ?w"
  have 1: "wire (sendClientEvent h m s) = wire s @ [?w]"
    using wire_sendClientEvent [OF assms] .
  have 2: "events (sendClientEvent h m s) = ?r # events s"
    using events_sendClientEvent [OF assms, of h m] by (simp add: Let_def)
  have 3: "prop_truthy m ''event_id'' \<longrightarrow> map_of ?w ''event_id'' = map_of m ''event_id''"
    by (auto simp: update_conv' prop_truthy_def split: option.splits)
  have 4: "\<not> prop_truthy m ''event_id'' \<longrightarrow> map_of ?w ''event_id'' = Some (JStr (randomUUID h))"
    by (simp add: update_conv')
  have 5: "\<forall>k. k \<noteq> ''event_id'' \<longrightarrow> map_of ?w k = map_of m k"
    by (simp add: update_conv')
  have 6: "map_of ?r ''timestamp'' \<noteq> None"
    by (rule stamp_present)
  have 7: "\<forall>k. k \<noteq> ''timestamp'' \<longrightarrow> map_of ?r k = map_of ?w k"
    using map_of_stamp by blast
  from 1 2 3 4 5 6 7 show ?thesis by blast
qed

theorem wire_message_fields_witness:
  "dataChannel continuous_session \<noteq> None
   \<and> \<not> prop_truthy [(''type'', JStr ''response.create'')] ''event_id''
   \<and> (\<exists>w r. wire (sendClientEvent example_host [(''type'', JStr ''response.create'')]
                 continuous_session) = wire continuous_session @ [w]
         \<and> events (sendClientEvent example_host [(''type'', JStr ''response.create'')]
                 continuous_session) = r # events continuous_session
         \<and> map_of w ''event_id'' = Some (JStr ''uuid-1'')
         \<and> map_of w ''type'' = Some (JStr ''response.create'')
         \<and> map_of w ''timestamp'' = None
         \<and> map_of r ''timestamp'' \<noteq> None)
   \<and> prop_truthy [(''type'', JStr ''ping''), (''event_id'', JStr ''mine'')] ''event_id''
   \<and> (\<exists>w r. wire (sendClientEvent example_host
                 [(''type'', JStr ''ping''), (''event_id'', JStr ''mine'')] continuous_session)
               = wire continuous_session @ [w]
         \<and> map_of w ''event_id'' = Some (JStr ''mine''))"
  using wire_message_fields [of continuous_session example_host
      "[(''type'', JStr ''response.create'')]"]
    wire_message_fields [of continuous_session example_host
      "[(''type'', JStr ''ping''), (''event_id'', JStr ''mine'')]"]
  by (auto simp: continuous_session_eq prop_truthy_def example_host_def)

end
